theory Spec2Isabelle
  imports Main
begin

section \<open>Data model\<close>

text \<open>
  The exceptions raised by \<^verbatim>\<open>section.py\<close> and \<^verbatim>\<open>document.py\<close>. Every raise of the
  source is a value of this type. \<open>NoOptionError\<close> carries (option, section) in the
  source's argument order; \<open>KeyError\<close> carries the key of its message.
  \<open>NotAttachedError\<close> is the error of \<^verbatim>\<open>block.py\<close> that the tests import, raised
  when the container of a detached block is asked for; \<open>IndexError\<close> is Python's for
  a list index out of range.
\<close>

datatype error =
    NoSectionError string
  | NoOptionError string string
  | DuplicateSectionError string
  | KeyError string
  | ValueError string
  | TypeError
  | AttributeError
  | StopIteration
  | NotAttachedError
  | IndexError
  | ParseError nat string

text \<open>
  Sections are objects, named by their address in a store.
\<close>

type_synonym ref = nat

text \<open>
  Modelled from the spec: the class \<^verbatim>\<open>Option\<close> of \<^verbatim>\<open>option.py\<close>, which is not among
  the source files. An option holds the key as written (\<open>o_key\<close>, the attribute
  \<^verbatim>\<open>_key\<close>), its value (\<open>None\<close> is a valueless key, distinct from the empty
  string), the lines captured by the parser, the flag that a value was assigned
  after construction, and the back-reference to the section that owns it
  (\<open>o_container\<close>, the attribute \<^verbatim>\<open>_container\<close>; \<open>None\<close> for a detached option).
  Nothing in \<^verbatim>\<open>section.py\<close> writes that back-reference when it stores an option, so
  the owner of an option need not be the section that holds it.
\<close>

record option_block =
  o_key :: string
  o_value :: "string option"
  o_lines :: "string list"
  o_updated :: bool
  o_container :: "ref option"

text \<open>
  The union \<^verbatim>\<open>SectionContent = Union[Option, Comment, Space]\<close>. A comment run and a
  blank-line run are their captured lines.
\<close>

datatype section_content =
    OptionB option_block
  | CommentB "string list"
  | SpaceB "string list"

text \<open>
  The attributes of \<^verbatim>\<open>Section\<close>: \<^verbatim>\<open>_name\<close>, \<^verbatim>\<open>_structure\<close>, \<^verbatim>\<open>_updated\<close> and the
  \<^verbatim>\<open>lines\<close> of its \<^verbatim>\<open>Block\<close> base (the captured header line).
\<close>

record section_block =
  s_name :: string
  s_structure :: "section_content list"
  s_updated :: bool
  s_lines :: "string list"

text \<open>
  The caller of \<^verbatim>\<open>Document.__setitem__\<close> and \<^verbatim>\<open>Document.add_section\<close> holds a
  reference to the section it passes, and the document stores that reference. A section
  block of the document is therefore an address into the store of section objects.
\<close>

datatype config_content =
    SectionB ref
  | CommentD "string list"
  | SpaceD "string list"

text \<open>
  The state the methods of \<^verbatim>\<open>Document\<close> run in: the store of section objects, the
  next unused address, and the document's \<^verbatim>\<open>_structure\<close>.
\<close>

record state =
  heap :: "ref \<Rightarrow> section_block"
  fresh :: ref
  d_structure :: "config_content list"

text \<open>
  The Python values that the dynamically typed parameters of the source range over:
  the sentinel \<^verbatim>\<open>_UNSET\<close>, \<^verbatim>\<open>None\<close>, a string, an \<^verbatim>\<open>Option\<close>, a \<^verbatim>\<open>Section\<close> object
  and the empty dict \<^verbatim>\<open>{}\<close> that \<^verbatim>\<open>has_option\<close> passes as a default.
\<close>

datatype pyval =
    UNSET
  | PyNone
  | PyStr string
  | PyOption option_block
  | PySection ref
  | PyEmptyDict

subsection \<open>Key normalisation\<close>

text \<open>
  \<^verbatim>\<open>Document.optionxform\<close> returns \<^verbatim>\<open>optionstr.lower()\<close>. A \<open>char\<close> stands for a code
  point below 256. Among these \<^verbatim>\<open>str.lower\<close> changes the letters \<open>A\<close> to \<open>Z\<close> (65 to 90)
  and the capital letters 192 to 222 other than the multiplication sign 215, each to
  the code point 32 above, and keeps every other one. A string with a code point
  beyond 255 is not a value of \<open>string\<close>.
\<close>

definition lower_char :: "char \<Rightarrow> char" where
  "lower_char c =
     (let n = (of_char c :: nat) in
      if (65 \<le> n \<and> n \<le> 90) \<or> (192 \<le> n \<and> n \<le> 222 \<and> n \<noteq> 215)
      then char_of (n + 32) else c)"

definition optionxform :: "string \<Rightarrow> string" where
  "optionxform optionstr = map lower_char optionstr"

text \<open>
  Modelled from the spec: the property \<^verbatim>\<open>Option.key\<close> of \<^verbatim>\<open>option.py\<close>. The key of an
  option is case-normalised for lookup, the original casing is kept in \<open>o_key\<close>.
\<close>

definition Option_key :: "option_block \<Rightarrow> string" where
  "Option_key opt = optionxform (o_key opt)"

text \<open>
  Modelled from the spec: the constructor \<^verbatim>\<open>Option(key, value, container)\<close> and the
  setter of \<^verbatim>\<open>Option.value\<close>, both of \<^verbatim>\<open>option.py\<close>. A constructed option has no
  captured lines and the container it was given; assigning a value is a logical
  alteration of the block.
\<close>

definition Option_init :: "string \<Rightarrow> string option \<Rightarrow> ref option \<Rightarrow> option_block" where
  "Option_init key v container =
     \<lparr>o_key = key, o_value = v, o_lines = [], o_updated = False, o_container = container\<rparr>"

definition Option_set_value :: "option_block \<Rightarrow> string option \<Rightarrow> option_block" where
  "Option_set_value opt v = opt\<lparr>o_value := v, o_updated := True\<rparr>"

subsection \<open>Python list and generator primitives\<close>

text \<open>
  \<^verbatim>\<open>next(i for i, entry in enumerate(xs) if P(entry))\<close>: the first index whose entry
  satisfies \<open>P\<close>; \<open>None\<close> is the \<^verbatim>\<open>StopIteration\<close> of an exhausted generator.
\<close>

fun next_idx :: "('a \<Rightarrow> bool) \<Rightarrow> 'a list \<Rightarrow> nat option" where
  "next_idx P [] = None"
| "next_idx P (x # xs) =
     (if P x then Some 0 else (case next_idx P xs of None \<Rightarrow> None | Some i \<Rightarrow> Some (Suc i)))"

text \<open>\<^verbatim>\<open>del xs[idx]\<close> and \<^verbatim>\<open>xs.insert(idx, v)\<close> for an index within the list.\<close>

definition list_del :: "'a list \<Rightarrow> nat \<Rightarrow> 'a list" where
  "list_del xs idx = take idx xs @ drop (Suc idx) xs"

definition list_insert :: "'a list \<Rightarrow> nat \<Rightarrow> 'a \<Rightarrow> 'a list" where
  "list_insert xs idx v = take idx xs @ v # drop idx xs"

section \<open>Section\<close>

text \<open>\<^verbatim>\<open>Section.__init__\<close>; the base constructor leaves \<^verbatim>\<open>lines\<close> empty.\<close>

definition Section_init :: "string \<Rightarrow> section_block" where
  "Section_init nm = \<lparr>s_name = nm, s_structure = [], s_updated = False, s_lines = []\<rparr>"

text \<open>The setter of \<^verbatim>\<open>Section.name\<close>.\<close>

definition Section_set_name :: "section_block \<Rightarrow> string \<Rightarrow> section_block" where
  "Section_set_name s v = s\<lparr>s_name := v, s_updated := True\<rparr>"

text \<open>
  Modelled from the spec: the property \<^verbatim>\<open>Block.updated\<close> of \<^verbatim>\<open>block.py\<close>. The spec has
  the dirty flag set when the name was changed or the section was newly constructed
  rather than parsed; \<^verbatim>\<open>Section.__init__\<close> itself stores \<^verbatim>\<open>_updated = False\<close>, so a
  constructed section is recognised by having no captured text.
\<close>

definition Section_updated :: "section_block \<Rightarrow> bool" where
  "Section_updated s = (s_updated s \<or> s_lines s = [])"

definition Option_updated :: "option_block \<Rightarrow> bool" where
  "Option_updated opt = (o_updated opt \<or> o_lines opt = [])"

text \<open>
  Modelled from the spec: \<^verbatim>\<open>Block.__str__\<close> of \<^verbatim>\<open>block.py\<close>, the rendering of a block
  that was not altered: its captured text.
\<close>

definition Block_str :: "string list \<Rightarrow> string" where
  "Block_str ls = concat ls"

text \<open>
  Modelled from the spec: \<^verbatim>\<open>Option.__str__\<close> of \<^verbatim>\<open>option.py\<close>. An unaltered option
  renders its captured text. The text synthesised for an altered option is not fixed
  by the spec; it is the parameter \<open>synth\<close>.
\<close>

definition Option_str :: "(option_block \<Rightarrow> string) \<Rightarrow> option_block \<Rightarrow> string" where
  "Option_str synth opt = (if \<not> Option_updated opt then Block_str (o_lines opt) else synth opt)"

fun entry_str :: "(option_block \<Rightarrow> string) \<Rightarrow> section_content \<Rightarrow> string" where
  "entry_str synth (OptionB opt) = Option_str synth opt"
| "entry_str synth (CommentB ls) = Block_str ls"
| "entry_str synth (SpaceB ls) = Block_str ls"

text \<open>
  \<^verbatim>\<open>Section.__str__\<close>: the header, captured or synthesised as \<^verbatim>\<open>"[{}]\n"\<close>, then the
  entries in order.
\<close>

definition Section_str :: "(option_block \<Rightarrow> string) \<Rightarrow> section_block \<Rightarrow> string" where
  "Section_str synth s =
     foldl (\<lambda>acc entry. acc @ entry_str synth entry)
       (if \<not> Section_updated s then Block_str (s_lines s)
        else ''['' @ s_name s @ '']'' @ [CHR 0x0A])
       (s_structure s)"

text \<open>\<^verbatim>\<open>Section.iter_options\<close>, \<^verbatim>\<open>Section.options\<close>.\<close>

fun iter_options_list :: "section_content list \<Rightarrow> option_block list" where
  "iter_options_list [] = []"
| "iter_options_list (OptionB opt # es) = opt # iter_options_list es"
| "iter_options_list (_ # es) = iter_options_list es"

definition Section_iter_options :: "section_block \<Rightarrow> option_block list" where
  "Section_iter_options s = iter_options_list (s_structure s)"

definition Section_options :: "section_block \<Rightarrow> string list" where
  "Section_options s = map Option_key (Section_iter_options s)"

text \<open>
  \<^verbatim>\<open>Section.__contains__\<close>:
  \<^verbatim>\<open>next((True for o in self.iter_options() if o.key == key), False)\<close>.
\<close>

definition Section_contains :: "section_block \<Rightarrow> string \<Rightarrow> bool" where
  "Section_contains s key =
     (case find (\<lambda>opt. Option_key opt = key) (Section_iter_options s) of
        Some _ \<Rightarrow> True | None \<Rightarrow> False)"

text \<open>\<^verbatim>\<open>Section.__getitem__\<close>: the key is normalised, absence is a \<^verbatim>\<open>KeyError\<close>.\<close>

definition Section_getitem :: "section_block \<Rightarrow> string \<Rightarrow> error + option_block" where
  "Section_getitem s key =
     (let key = optionxform key in
      case find (\<lambda>opt. Option_key opt = key) (Section_iter_options s) of
        Some opt \<Rightarrow> Inr opt
      | None \<Rightarrow> Inl (KeyError key))"

text \<open>
  \<^verbatim>\<open>Section.get(key, default=None)\<close>:
  \<^verbatim>\<open>next((o for o in self.iter_options() if o.key == key), default)\<close>. The key is
  compared as passed.
\<close>

definition Section_get :: "section_block \<Rightarrow> string \<Rightarrow> pyval \<Rightarrow> pyval" where
  "Section_get s key dflt =
     (case find (\<lambda>opt. Option_key opt = key) (Section_iter_options s) of
        Some opt \<Rightarrow> PyOption opt
      | None \<Rightarrow> dflt)"

text \<open>\<^verbatim>\<open>Section._get_option_idx\<close>; \<open>None\<close> is the \<^verbatim>\<open>StopIteration\<close> of \<^verbatim>\<open>next\<close>.\<close>

fun is_option_with_key :: "string \<Rightarrow> section_content \<Rightarrow> bool" where
  "is_option_with_key key (OptionB opt) = (Option_key opt = key)"
| "is_option_with_key key _ = False"

definition Section_get_option_idx :: "section_block \<Rightarrow> string \<Rightarrow> nat option" where
  "Section_get_option_idx s key = next_idx (is_option_with_key key) (s_structure s)"

text \<open>\<^verbatim>\<open>Section.add_option\<close>: the entry is appended, nothing is checked.\<close>

definition Section_add_option :: "section_block \<Rightarrow> option_block \<Rightarrow> section_block" where
  "Section_add_option s entry = s\<lparr>s_structure := s_structure s @ [OptionB entry]\<rparr>"

text \<open>
  The parameter \<^verbatim>\<open>value: Optional[Value]\<close> of \<^verbatim>\<open>Section.__setitem__\<close>, where
  \<^verbatim>\<open>Value = Union[Option, str]\<close>: an \<^verbatim>\<open>Option\<close> object, or a plain value that is a
  string or \<^verbatim>\<open>None\<close>.
\<close>

datatype "value" = VOption option_block | VPlain "string option"

text \<open>
  \<^verbatim>\<open>Section.__delitem__\<close>: the index comes from \<^verbatim>\<open>_get_option_idx(key=key)\<close> with the
  key as passed; \<^verbatim>\<open>StopIteration\<close> becomes \<^verbatim>\<open>KeyError\<close>.
\<close>

definition Section_delitem :: "section_block \<Rightarrow> string \<Rightarrow> (error + unit) \<times> section_block" where
  "Section_delitem s key =
     (case Section_get_option_idx s key of
        Some idx \<Rightarrow> (Inr (), s\<lparr>s_structure := list_del (s_structure s) idx\<rparr>)
      | None \<Rightarrow> (Inl (KeyError key), s))"

section \<open>Assignment to a section\<close>

text \<open>
  Modelled from the spec: the properties \<^verbatim>\<open>Block.container\<close> and
  \<^verbatim>\<open>Block.container_idx\<close> of \<^verbatim>\<open>block.py\<close>. Asking a detached block for its container
  fails with \<^verbatim>\<open>NotAttachedError\<close>. The index of a block is its position within the
  structure of the section that owns it, which need not be the section it was found
  in; \<^verbatim>\<open>list.index\<close> finds the first block equal to it and raises \<^verbatim>\<open>ValueError\<close>
  when there is none.
\<close>

definition container_idx :: "state \<Rightarrow> option_block \<Rightarrow> error + nat" where
  "container_idx st opt =
     (case o_container opt of
        None \<Rightarrow> Inl NotAttachedError
      | Some c \<Rightarrow>
          (case next_idx (\<lambda>b. b = OptionB opt) (s_structure (heap st c)) of
             None \<Rightarrow> Inl (ValueError ''not in list'')
           | Some idx \<Rightarrow> Inr idx))"

text \<open>
  The assignment \<^verbatim>\<open>option.value = value\<close> to the option that \<^verbatim>\<open>__getitem__\<close> returned:
  the first option of the normalised key is altered where it stands in the structure.
  Options are values of the structure that holds them; where the code has stored one
  \<^verbatim>\<open>Option\<close> object in two sections, the model holds two values and this assignment
  alters the one in the section assigned to.
\<close>

fun assign_value :: "string \<Rightarrow> string option \<Rightarrow> section_content list \<Rightarrow> section_content list" where
  "assign_value key x [] = []"
| "assign_value key x (OptionB opt # es) =
     (if Option_key opt = key then OptionB (Option_set_value opt x) # es
      else OptionB opt # assign_value key x es)"
| "assign_value key x (e # es) = e # assign_value key x es"

text \<open>
  \<^verbatim>\<open>Section.__setitem__\<close> on the section object at the address \<open>self\<close>. The result
  pairs the outcome with the state after the call, so that what an exception leaves
  behind is visible. In the replacing branch the index is
  \<^verbatim>\<open>self.__getitem__(key).container_idx\<close>, taken in the container of the option found,
  while \<^verbatim>\<open>del self.structure[idx]\<close> and \<^verbatim>\<open>self.structure.insert(idx, value)\<close> act on
  the structure of \<open>self\<close>; \<^verbatim>\<open>del\<close> raises \<^verbatim>\<open>IndexError\<close> for an index beyond the
  list. The appended or inserted \<^verbatim>\<open>Option\<close> keeps the container it has.
\<close>

definition Section_setitem :: "state \<Rightarrow> ref \<Rightarrow> string \<Rightarrow> value \<Rightarrow> (error + unit) \<times> state" where
  "Section_setitem st self key v =
     (let s = heap st self in
      if Section_contains s (optionxform key) then
        (case v of
           VOption opt \<Rightarrow>
             if Option_key opt \<noteq> key then
               (Inl (ValueError (''Set key '' @ key @ '' does not equal option key ''
                                  @ Option_key opt)), st)
             else
               (case Section_getitem s key of
                  Inl e \<Rightarrow> (Inl e, st)
                | Inr old \<Rightarrow>
                    (case container_idx st old of
                       Inl e \<Rightarrow> (Inl e, st)
                     | Inr idx \<Rightarrow>
                         if idx < length (s_structure s) then
                           (Inr (), st\<lparr>heap := (heap st)(self := s\<lparr>s_structure :=
                              list_insert (list_del (s_structure s) idx) idx (OptionB opt)\<rparr>)\<rparr>)
                         else (Inl IndexError, st)))
         | VPlain x \<Rightarrow>
             (case Section_getitem s key of
                Inl e \<Rightarrow> (Inl e, st)
              | Inr old \<Rightarrow>
                  (Inr (), st\<lparr>heap := (heap st)(self := s\<lparr>s_structure :=
                     assign_value (optionxform key) x (s_structure s)\<rparr>)\<rparr>)))
      else
        (case v of
           VOption opt \<Rightarrow>
             (Inr (), st\<lparr>heap := (heap st)(self := s\<lparr>s_structure :=
                s_structure s @ [OptionB opt]\<rparr>)\<rparr>)
         | VPlain x \<Rightarrow>
             (Inr (), st\<lparr>heap := (heap st)(self := s\<lparr>s_structure := s_structure s @
                [OptionB (Option_set_value (Option_init key x (Some self)) x)]\<rparr>)\<rparr>)))"

section \<open>Document\<close>

text \<open>\<^verbatim>\<open>Document.iter_sections\<close>: the blocks of the structure that are sections.\<close>

fun section_refs :: "config_content list \<Rightarrow> ref list" where
  "section_refs [] = []"
| "section_refs (SectionB r # bs) = r # section_refs bs"
| "section_refs (_ # bs) = section_refs bs"

definition Document_iter_sections :: "state \<Rightarrow> ref list" where
  "Document_iter_sections st = section_refs (d_structure st)"

text \<open>\<^verbatim>\<open>Document.sections\<close>: the names, in order.\<close>

definition Document_sections :: "state \<Rightarrow> string list" where
  "Document_sections st = map (\<lambda>r. s_name (heap st r)) (Document_iter_sections st)"

text \<open>
  \<^verbatim>\<open>Document.__contains__\<close>, also bound to \<^verbatim>\<open>has_section\<close>:
  \<^verbatim>\<open>next((True for s in self.iter_sections() if s.name == key), False)\<close>.
\<close>

definition Document_contains :: "state \<Rightarrow> string \<Rightarrow> bool" where
  "Document_contains st key =
     (case find (\<lambda>r. s_name (heap st r) = key) (Document_iter_sections st) of
        Some _ \<Rightarrow> True | None \<Rightarrow> False)"

definition has_section :: "state \<Rightarrow> string \<Rightarrow> bool" where
  "has_section = Document_contains"

text \<open>\<^verbatim>\<open>Document._get_section_idx\<close>; \<open>None\<close> is the \<^verbatim>\<open>StopIteration\<close> of \<^verbatim>\<open>next\<close>.\<close>

fun is_section_named :: "(ref \<Rightarrow> section_block) \<Rightarrow> string \<Rightarrow> config_content \<Rightarrow> bool" where
  "is_section_named h nm (SectionB r) = (s_name (h r) = nm)"
| "is_section_named h nm _ = False"

definition Document_get_section_idx :: "state \<Rightarrow> string \<Rightarrow> nat option" where
  "Document_get_section_idx st nm = next_idx (is_section_named (heap st) nm) (d_structure st)"

text \<open>\<^verbatim>\<open>Document.__getitem__\<close>: the first section of that name, or \<^verbatim>\<open>KeyError\<close>.\<close>

definition Document_getitem :: "state \<Rightarrow> string \<Rightarrow> error + ref" where
  "Document_getitem st key =
     (case find (\<lambda>r. s_name (heap st r) = key) (Document_iter_sections st) of
        Some r \<Rightarrow> Inr r
      | None \<Rightarrow> Inl (KeyError key))"

text \<open>
  \<^verbatim>\<open>Document.get_section(name, default=None)\<close>:
  \<^verbatim>\<open>next((s for s in self.iter_sections() if s.name == name), default)\<close>.
\<close>

definition Document_get_section :: "state \<Rightarrow> string \<Rightarrow> pyval \<Rightarrow> pyval" where
  "Document_get_section st nm dflt =
     (case find (\<lambda>r. s_name (heap st r) = nm) (Document_iter_sections st) of
        Some r \<Rightarrow> PySection r
      | None \<Rightarrow> dflt)"

text \<open>
  The call \<^verbatim>\<open>Section(section, container=self)\<close> inside \<^verbatim>\<open>add_section\<close>: a new object
  at the next unused address.
\<close>

definition new_Section :: "state \<Rightarrow> string \<Rightarrow> ref \<times> state" where
  "new_Section st nm =
     (fresh st, st\<lparr>heap := (heap st)(fresh st := Section_init nm), fresh := Suc (fresh st)\<rparr>)"

text \<open>
  Every section the document holds is an allocated object: its address lies below the
  next unused one, so a newly constructed section is none of them.
\<close>

definition wf_state :: "state \<Rightarrow> bool" where
  "wf_state st = list_all (\<lambda>r. r < fresh st) (Document_iter_sections st)"

text \<open>
  \<^verbatim>\<open>Document.add_section\<close>. \<open>add_section_obj\<close> is the part of the method after
  \<^verbatim>\<open>section_obj\<close> is bound: the duplicate check and the append.
\<close>

definition add_section_obj :: "state \<Rightarrow> ref \<Rightarrow> (error + unit) \<times> state" where
  "add_section_obj st section_obj =
     (if has_section st (s_name (heap st section_obj)) then
        (Inl (DuplicateSectionError (s_name (heap st section_obj))), st)
      else (Inr (), st\<lparr>d_structure := d_structure st @ [SectionB section_obj]\<rparr>))"

definition Document_add_section :: "state \<Rightarrow> pyval \<Rightarrow> (error + unit) \<times> state" where
  "Document_add_section st sec =
     (case sec of
        PyStr nm \<Rightarrow> (let (section_obj, st') = new_Section st nm in add_section_obj st' section_obj)
      | PySection section_obj \<Rightarrow> add_section_obj st section_obj
      | _ \<Rightarrow> (Inl (ValueError ''Parameter must be a string or Section type!''), st))"

text \<open>
  \<^verbatim>\<open>Document.__setitem__\<close>. The key is a string, as annotated. In the second branch
  the assignment \<^verbatim>\<open>value.name = key\<close> writes to the object the caller passed.
\<close>

definition Document_setitem :: "state \<Rightarrow> string \<Rightarrow> pyval \<Rightarrow> (error + unit) \<times> state" where
  "Document_setitem st key v =
     (case v of
        PySection r \<Rightarrow>
          if Document_contains st key then
            (case Document_get_section_idx st key of
               None \<Rightarrow> (Inl StopIteration, st)
             | Some idx \<Rightarrow>
                 (Inr (), st\<lparr>d_structure :=
                    list_insert (list_del (d_structure st) idx) idx (SectionB r)\<rparr>))
          else
            Document_add_section
              (st\<lparr>heap := (heap st)(r := Section_set_name (heap st r) key)\<rparr>) (PySection r)
      | _ \<Rightarrow> (Inl (ValueError ''Value must be of type Section!''), st))"

text \<open>\<^verbatim>\<open>Document.options\<close>.\<close>

definition Document_options :: "state \<Rightarrow> string \<Rightarrow> error + string list" where
  "Document_options st sec =
     (if \<not> has_section st sec then Inl (NoSectionError sec)
      else (case Document_getitem st sec of
              Inl e \<Rightarrow> Inl e
            | Inr r \<Rightarrow> Inr (Section_options (heap st r))))"

text \<open>
  \<^verbatim>\<open>Document.get(section, option, fallback=_UNSET)\<close>. After the test against
  \<^verbatim>\<open>_UNSET\<close> the source calls \<^verbatim>\<open>section_obj.get\<close>; \<^verbatim>\<open>get_section\<close> returns a section
  or its default, so the last case is never reached.
\<close>

definition Document_get :: "state \<Rightarrow> string \<Rightarrow> string \<Rightarrow> pyval \<Rightarrow> error + pyval" where
  "Document_get st sec opt fallback =
     (case Document_get_section st sec UNSET of
        UNSET \<Rightarrow> Inl (NoSectionError sec)
      | PySection r \<Rightarrow>
          (let opt = optionxform opt;
               v = Section_get (heap st r) opt fallback
           in if v = UNSET then Inl (NoOptionError opt sec) else Inr v)
      | _ \<Rightarrow> Inl AttributeError)"

text \<open>
  \<^verbatim>\<open>Document.has_option\<close>: \<^verbatim>\<open>key in self.get_section(section, {})\<close>. Membership in a
  section is \<^verbatim>\<open>Section.__contains__\<close>, membership in the empty dict is false.
\<close>

definition Document_has_option :: "state \<Rightarrow> string \<Rightarrow> string \<Rightarrow> error + bool" where
  "Document_has_option st sec opt =
     (let key = optionxform opt in
      case Document_get_section st sec PyEmptyDict of
        PySection r \<Rightarrow> Inr (Section_contains (heap st r) key)
      | PyEmptyDict \<Rightarrow> Inr False
      | _ \<Rightarrow> Inl TypeError)"

text \<open>
  \<^verbatim>\<open>Document.__str__\<close>: \<^verbatim>\<open>"".join(str(block) for block in self._structure)\<close>.
\<close>

fun block_str :: "(option_block \<Rightarrow> string) \<Rightarrow> (ref \<Rightarrow> section_block) \<Rightarrow> config_content \<Rightarrow> string" where
  "block_str synth h (SectionB r) = Section_str synth (h r)"
| "block_str synth h (CommentD ls) = Block_str ls"
| "block_str synth h (SpaceD ls) = Block_str ls"

definition Document_str :: "(option_block \<Rightarrow> string) \<Rightarrow> state \<Rightarrow> string" where
  "Document_str synth st = concat (map (block_str synth (heap st)) (d_structure st))"

section \<open>Parser\<close>

text \<open>
  Modelled from the spec: the property \<^verbatim>\<open>Container.last_block\<close> of \<^verbatim>\<open>container.py\<close>,
  the last block of a structure, \<^verbatim>\<open>None\<close> when there is none.
\<close>

definition last_block :: "'a list \<Rightarrow> 'a option" where
  "last_block xs = (if xs = [] then None else Some (last xs))"

text \<open>
  \<^verbatim>\<open>Section.add_comment\<close> and \<^verbatim>\<open>Section.add_space\<close>: the line extends the run that ends
  the structure, or starts a new block. \<^verbatim>\<open>Block.add_line\<close> appends to the lines.
\<close>

definition Section_add_comment :: "section_block \<Rightarrow> string \<Rightarrow> section_block" where
  "Section_add_comment s line =
     (case last_block (s_structure s) of
        Some (CommentB ls) \<Rightarrow>
          s\<lparr>s_structure := butlast (s_structure s) @ [CommentB (ls @ [line])]\<rparr>
      | _ \<Rightarrow> s\<lparr>s_structure := s_structure s @ [CommentB [line]]\<rparr>)"

definition Section_add_space :: "section_block \<Rightarrow> string \<Rightarrow> section_block" where
  "Section_add_space s line =
     (case last_block (s_structure s) of
        Some (SpaceB ls) \<Rightarrow>
          s\<lparr>s_structure := butlast (s_structure s) @ [SpaceB (ls @ [line])]\<rparr>
      | _ \<Rightarrow> s\<lparr>s_structure := s_structure s @ [SpaceB [line]]\<rparr>)"

text \<open>
  Modelled from the spec: the parser of \<^verbatim>\<open>parser.py\<close>, which is not among the source
  files. The spec describes it as a single-pass state machine over the lines of the
  text and leaves the grammar of a line to an external collaborator, so the
  classification of a line is the parameter \<open>classify\<close>: a section header with its
  name, a key/value line, an indented line without delimiter, a blank line, a comment
  line, or none of these.
\<close>

datatype line_kind =
    Header string
  | KeyValue string "string option"
  | Indented string
  | Blank
  | CommentLine
  | Unknown

datatype parser_mode =
    BeforeAnySection
  | InSectionHeader
  | InOptionValue
  | InCommentRun
  | InBlankRun

record parser =
  p_doc :: state
  p_mode :: parser_mode
  p_cursect :: "ref option"
  p_lineno :: nat

text \<open>
  Modelled from the spec: the text is consumed line by line; a line keeps its
  terminating newline, and the last line may have none.
\<close>

fun split_lines :: "string \<Rightarrow> string list" where
  "split_lines [] = []"
| "split_lines (c # cs) =
     (if c = CHR 0x0A then [c] # split_lines cs
      else (case split_lines cs of [] \<Rightarrow> [[c]] | l # ls \<Rightarrow> (c # l) # ls))"

text \<open>
  Modelled from the spec: comment and blank lines met before any section extend or
  create a run at the top level of the document, by the same merging rule.
\<close>

definition Document_add_comment :: "state \<Rightarrow> string \<Rightarrow> state" where
  "Document_add_comment st line =
     (case last_block (d_structure st) of
        Some (CommentD ls) \<Rightarrow>
          st\<lparr>d_structure := butlast (d_structure st) @ [CommentD (ls @ [line])]\<rparr>
      | _ \<Rightarrow> st\<lparr>d_structure := d_structure st @ [CommentD [line]]\<rparr>)"

definition Document_add_space :: "state \<Rightarrow> string \<Rightarrow> state" where
  "Document_add_space st line =
     (case last_block (d_structure st) of
        Some (SpaceD ls) \<Rightarrow>
          st\<lparr>d_structure := butlast (d_structure st) @ [SpaceD (ls @ [line])]\<rparr>
      | _ \<Rightarrow> st\<lparr>d_structure := d_structure st @ [SpaceD [line]]\<rparr>)"

text \<open>
  Modelled from the spec: a continuation line is appended to the option that ends the
  current section; it joins the captured lines of that option and its value.
\<close>

definition add_continuation :: "section_block \<Rightarrow> string \<Rightarrow> string \<Rightarrow> section_block option" where
  "add_continuation s line v =
     (case last_block (s_structure s) of
        Some (OptionB opt) \<Rightarrow>
          Some (s\<lparr>s_structure := butlast (s_structure s) @
            [OptionB (opt\<lparr>o_lines := o_lines opt @ [line],
               o_value := (case o_value opt of None \<Rightarrow> Some v
                           | Some x \<Rightarrow> Some (x @ [CHR 0x0A] @ v))\<rparr>)]\<rparr>)
      | _ \<Rightarrow> None)"

text \<open>
  Modelled from the spec: the transitions of the parser, one line at a time.
  A header creates a section that captures the line and appends it through
  \<^verbatim>\<open>add_section\<close>, so a repeated section name is rejected. A key/value line appends an
  option, which captures the line and is owned by the current section, to that
  section. An indented line without
  delimiter continues the value of the current option when the parser is in the option
  value state. Blank and comment lines extend or create a run, in the current section
  or, before any section, at the top level. Every other line is a parse error reported
  with its number and content.
\<close>

definition on_section :: "state \<Rightarrow> ref \<Rightarrow> (section_block \<Rightarrow> section_block) \<Rightarrow> state" where
  "on_section st r f = st\<lparr>heap := (heap st)(r := f (heap st r))\<rparr>"

definition parse_line :: "(string \<Rightarrow> line_kind) \<Rightarrow> parser \<Rightarrow> string \<Rightarrow> error + parser" where
  "parse_line classify p line =
     (let n = Suc (p_lineno p); st = p_doc p in
      case classify line of
        Header nm \<Rightarrow>
          (let (r, st1) = new_Section st nm;
               st2 = on_section st1 r (\<lambda>s. s\<lparr>s_lines := s_lines s @ [line]\<rparr>)
           in case Document_add_section st2 (PySection r) of
                (Inl e, _) \<Rightarrow> Inl e
              | (Inr _, st3) \<Rightarrow>
                  Inr \<lparr>p_doc = st3, p_mode = InSectionHeader, p_cursect = Some r, p_lineno = n\<rparr>)
      | KeyValue k v \<Rightarrow>
          (case p_cursect p of
             None \<Rightarrow> Inl (ParseError n line)
           | Some r \<Rightarrow>
               Inr \<lparr>p_doc = on_section st r (\<lambda>s. Section_add_option s
                              \<lparr>o_key = k, o_value = v, o_lines = [line], o_updated = False,
                               o_container = Some r\<rparr>),
                    p_mode = InOptionValue, p_cursect = Some r, p_lineno = n\<rparr>)
      | Indented v \<Rightarrow>
          (case p_cursect p of
             None \<Rightarrow> Inl (ParseError n line)
           | Some r \<Rightarrow>
               if p_mode p \<noteq> InOptionValue then Inl (ParseError n line)
               else (case add_continuation (heap st r) line v of
                       None \<Rightarrow> Inl (ParseError n line)
                     | Some s' \<Rightarrow>
                         Inr \<lparr>p_doc = on_section st r (\<lambda>_. s'), p_mode = InOptionValue,
                              p_cursect = Some r, p_lineno = n\<rparr>))
      | Blank \<Rightarrow>
          (case p_cursect p of
             None \<Rightarrow>
               Inr \<lparr>p_doc = Document_add_space st line, p_mode = InBlankRun,
                    p_cursect = None, p_lineno = n\<rparr>
           | Some r \<Rightarrow>
               Inr \<lparr>p_doc = on_section st r (\<lambda>s. Section_add_space s line),
                    p_mode = InBlankRun, p_cursect = Some r, p_lineno = n\<rparr>)
      | CommentLine \<Rightarrow>
          (case p_cursect p of
             None \<Rightarrow>
               Inr \<lparr>p_doc = Document_add_comment st line, p_mode = InCommentRun,
                    p_cursect = None, p_lineno = n\<rparr>
           | Some r \<Rightarrow>
               Inr \<lparr>p_doc = on_section st r (\<lambda>s. Section_add_comment s line),
                    p_mode = InCommentRun, p_cursect = Some r, p_lineno = n\<rparr>)
      | Unknown \<Rightarrow> Inl (ParseError n line))"

fun parse_lines :: "(string \<Rightarrow> line_kind) \<Rightarrow> parser \<Rightarrow> string list \<Rightarrow> error + parser" where
  "parse_lines classify p [] = Inr p"
| "parse_lines classify p (line # ls) =
     (case parse_line classify p line of
        Inl e \<Rightarrow> Inl e
      | Inr p' \<Rightarrow> parse_lines classify p' ls)"

definition empty_document :: state where
  "empty_document = \<lparr>heap = (\<lambda>_. Section_init []), fresh = 0, d_structure = []\<rparr>"

definition parse :: "(string \<Rightarrow> line_kind) \<Rightarrow> string \<Rightarrow> error + state" where
  "parse classify text =
     (case parse_lines classify
             \<lparr>p_doc = empty_document, p_mode = BeforeAnySection, p_cursect = None, p_lineno = 0\<rparr>
             (split_lines text) of
        Inl e \<Rightarrow> Inl e
      | Inr p \<Rightarrow> Inr (p_doc p))"

text \<open>
  What the parser maintains while it reads, for the text consumed so far: the document
  renders that text; its sections are allocated objects; the current section, if any,
  is the last block of the document and no other block refers to it; in the option value
  state the current section ends with an option rendered from its captured lines.
\<close>

definition parser_inv :: "(option_block \<Rightarrow> string) \<Rightarrow> parser \<Rightarrow> string \<Rightarrow> bool" where
  "parser_inv synth p consumed \<longleftrightarrow>
     Document_str synth (p_doc p) = consumed
     \<and> wf_state (p_doc p)
     \<and> (case p_cursect p of
          None \<Rightarrow> True
        | Some r \<Rightarrow>
            d_structure (p_doc p) \<noteq> [] \<and> last (d_structure (p_doc p)) = SectionB r
            \<and> r \<notin> set (section_refs (butlast (d_structure (p_doc p))))
            \<and> (p_mode p = InOptionValue \<longrightarrow>
                 (\<exists>opt. last_block (s_structure (heap (p_doc p) r)) = Some (OptionB opt)
                        \<and> \<not> Option_updated opt)))"

text \<open>
  Modelled from the spec: a small line grammar in the INI style, standing for the
  external one: a line of white space is blank; a line whose first visible character
  is \<^verbatim>\<open>#\<close> or \<^verbatim>\<open>;\<close> is a comment; a line starting with \<^verbatim>\<open>[\<close> and containing \<^verbatim>\<open>]\<close> is a
  header; an indented line without \<^verbatim>\<open>=\<close> and \<^verbatim>\<open>:\<close> is a continuation candidate; a line
  with \<^verbatim>\<open>=\<close> or \<^verbatim>\<open>:\<close> is a key/value line.
\<close>

definition is_space :: "char \<Rightarrow> bool" where
  "is_space c \<longleftrightarrow> c = CHR '' '' \<or> c = CHR 0x09 \<or> c = CHR 0x0A \<or> c = CHR 0x0D"

definition strip :: "string \<Rightarrow> string" where
  "strip xs = rev (dropWhile is_space (rev (dropWhile is_space xs)))"

definition is_delim :: "char \<Rightarrow> bool" where
  "is_delim c \<longleftrightarrow> c = CHR ''='' \<or> c = CHR '':''"

definition ini_classify :: "string \<Rightarrow> line_kind" where
  "ini_classify line =
     (let body = dropWhile is_space line in
      if body = [] then Blank
      else if hd body = CHR ''#'' \<or> hd body = CHR '';'' then CommentLine
      else if hd line = CHR ''['' \<and> CHR '']'' \<in> set line
        then Header (takeWhile (\<lambda>c. c \<noteq> CHR '']'') (tl line))
      else if is_space (hd line) \<and> \<not> list_ex is_delim line then Indented (strip line)
      else if list_ex is_delim line
        then KeyValue (strip (takeWhile (\<lambda>c. \<not> is_delim c) line))
               (Some (strip (tl (dropWhile (\<lambda>c. \<not> is_delim c) line))))
      else Unknown)"

section \<open>Example inputs\<close>

text \<open>
  A parsed section \<^verbatim>\<open>[main]\<close> holding a comment and the options \<^verbatim>\<open>Key = 1\<close> and
  \<^verbatim>\<open>other = 2\<close>, an empty parsed section \<^verbatim>\<open>[extra]\<close>, a section \<^verbatim>\<open>loose\<close> constructed
  by the caller and held by no document, and a document of a blank line and the two
  parsed sections, \<^verbatim>\<open>[main]\<close> at address 0. \<open>ex_opt_new\<close> is the option
  \<^verbatim>\<open>Option("KEY", "7", container=main)\<close> constructed by the caller.
\<close>

definition ex_opt_key :: option_block where
  "ex_opt_key = \<lparr>o_key = ''Key'', o_value = Some ''1'', o_lines = [''Key = 1\<newline>''],
     o_updated = False, o_container = Some 0\<rparr>"

definition ex_opt_other :: option_block where
  "ex_opt_other = \<lparr>o_key = ''other'', o_value = Some ''2'', o_lines = [''other = 2\<newline>''],
     o_updated = False, o_container = Some 0\<rparr>"

definition ex_main :: section_block where
  "ex_main = \<lparr>s_name = ''main'',
     s_structure = [CommentB [''# note\<newline>''], OptionB ex_opt_key, OptionB ex_opt_other],
     s_updated = False, s_lines = [''[main]\<newline>'']\<rparr>"

definition ex_extra :: section_block where
  "ex_extra = \<lparr>s_name = ''extra'', s_structure = [], s_updated = False, s_lines = [''[extra]\<newline>'']\<rparr>"

definition ex_loose :: section_block where
  "ex_loose = Section_init ''loose''"

definition ex_doc :: state where
  "ex_doc = \<lparr>heap = (\<lambda>_. Section_init [])(0 := ex_main, 1 := ex_extra, 2 := ex_loose),
     fresh = 3, d_structure = [SpaceD [''\<newline>''], SectionB 0, SectionB 1]\<rparr>"

definition ex_opt_new :: option_block where
  "ex_opt_new = Option_init ''KEY'' (Some ''7'') (Some 0)"

text \<open>
  The option that \<^verbatim>\<open>extra["new"] = "1"\<close> constructs in the section \<^verbatim>\<open>[extra]\<close> (address
  1), the document after that assignment, and the document after
  \<^verbatim>\<open>main["new"] = extra["new"]\<close>, which stores that option in \<^verbatim>\<open>[main]\<close> while
  \<^verbatim>\<open>[extra]\<close> stays its container. \<open>ex_opt_plain\<close> is \<^verbatim>\<open>Option("new", None, container=main)\<close>.
\<close>

definition ex_opt_moved :: option_block where
  "ex_opt_moved = Option_set_value (Option_init ''new'' (Some ''1'') (Some 1)) (Some ''1'')"

definition ex_opt_plain :: option_block where
  "ex_opt_plain = Option_init ''new'' None (Some 0)"

definition ex_doc1 :: state where
  "ex_doc1 = snd (Section_setitem ex_doc 1 ''new'' (VPlain (Some ''1'')))"

definition ex_doc2 :: state where
  "ex_doc2 = snd (Section_setitem ex_doc1 0 ''new'' (VOption ex_opt_moved))"

text \<open>
  A text with a comment and a blank line before the first section, a multi-line value,
  a blank line and a comment inside a section, and a second section.
\<close>

definition ex_text :: string where
  "ex_text = ''# top\<newline>\<newline>[options.extras_require]\<newline>testing =   # Add here test requirements\<newline>    sphinx\<newline>    flake8\<newline>\<newline>; note\<newline>[extra]\<newline>Key: 1\<newline>''"

section \<open>Auxiliary facts\<close>

lemma foldl_append_concat:
  "foldl (\<lambda>acc e. acc @ f e) a xs = a @ concat (map f xs)"
  by (induction xs arbitrary: a) simp_all

lemma next_idx_SomeD:
  "next_idx P xs = Some i \<Longrightarrow> i < length xs \<and> P (xs ! i) \<and> (\<forall>j<i. \<not> P (xs ! j))"
proof (induction xs arbitrary: i)
  case Nil
  then show ?case by simp
next
  case (Cons x xs)
  show ?case
  proof (cases "P x")
    case True
    with Cons.prems show ?thesis by simp
  next
    case False
    with Cons.prems obtain k where k: "next_idx P xs = Some k" "i = Suc k"
      by (auto split: option.splits)
    from Cons.IH[OF k(1)] False k(2) show ?thesis
      by (auto simp: nth_Cons split: nat.splits)
  qed
qed

lemma next_idx_None_iff: "next_idx P xs = None \<longleftrightarrow> (\<forall>x\<in>set xs. \<not> P x)"
  by (induction xs) (auto split: option.splits)

lemma list_del_insert:
  "i < length xs \<Longrightarrow> list_insert (list_del xs i) i v = xs[i := v]"
  by (simp add: list_insert_def list_del_def upd_conv_take_nth_drop min_def)

lemma find_key_iff:
  "(case find (\<lambda>x. f x = k) xs of Some _ \<Rightarrow> True | None \<Rightarrow> False) \<longleftrightarrow> k \<in> set (map f xs)"
  by (induction xs) auto

lemma Document_contains_iff:
  "Document_contains st key \<longleftrightarrow> key \<in> set (Document_sections st)"
  unfolding Document_contains_def Document_sections_def by (rule find_key_iff)


lemma ex_keys:
  "Option_key ex_opt_key = ''key''" "Option_key ex_opt_other = ''other''"
  "optionxform ''nokey'' = ''nokey''" "optionxform ''KEY'' = ''key''"
  "optionxform ''key'' = ''key''"
  by code_simp+

lemma ex_doc_sections: "Document_iter_sections ex_doc = [0, 1]"
  by (simp add: Document_iter_sections_def ex_doc_def)

lemma ex_doc_heap: "heap ex_doc 0 = ex_main" "heap ex_doc (Suc 0) = ex_extra"
  "heap ex_doc 2 = ex_loose"
  by (simp_all add: ex_doc_def)

lemma ex_main_options: "Section_iter_options ex_main = [ex_opt_key, ex_opt_other]"
  by (simp add: Section_iter_options_def ex_main_def)

lemma ex_names: "s_name ex_main = ''main''" "s_name ex_extra = ''extra''"
  "s_name ex_loose = ''loose''"
  by (simp_all add: ex_main_def ex_extra_def ex_loose_def Section_init_def)

lemma lower_char_idem: "lower_char (lower_char c) = lower_char c"
  by (simp add: lower_char_def Let_def)

lemma optionxform_idem: "optionxform (optionxform k) = optionxform k"
  by (simp add: optionxform_def lower_char_idem)

lemma ex_key_new: "Option_key ex_opt_new = ''key''" "optionxform ''Key'' = ''key''"
   "optionxform ''new'' = ''new''"
  by code_simp+

lemma ex_main_contains:
  "Section_contains ex_main ''key''" "\<not> Section_contains ex_main ''new''"
  "\<not> Section_contains ex_main ''KEY''"
  by (simp_all add: Section_contains_def ex_main_options ex_keys)

lemma ex_main_idx: "Section_get_option_idx ex_main ''key'' = Some 1"
  "Section_get_option_idx ex_main ''KEY'' = None"
  "Section_get_option_idx ex_main ''Key'' = None"
  by (simp_all add: Section_get_option_idx_def ex_main_def ex_keys)

lemma ex_main_structure:
  "s_structure ex_main = [CommentB [''# note\<newline>''], OptionB ex_opt_key, OptionB ex_opt_other]"
  by (simp add: ex_main_def)

lemma new_Section_simps:
  "fst (new_Section st nm) = fresh st"
  "d_structure (snd (new_Section st nm)) = d_structure st"
  "heap (snd (new_Section st nm)) = (heap st)(fresh st := Section_init nm)"
  by (simp_all add: new_Section_def)

lemma sections_new_Section:
  "wf_state st \<Longrightarrow> Document_sections (snd (new_Section st nm)) = Document_sections st"
  by (auto simp: wf_state_def Document_sections_def Document_iter_sections_def
      new_Section_simps list_all_iff)

lemma has_section_new_Section:
  "wf_state st \<Longrightarrow> has_section (snd (new_Section st nm)) k = has_section st k"
  by (simp add: has_section_def Document_contains_iff sections_new_Section)

lemma section_refs_append:
  "section_refs (xs @ ys) = section_refs xs @ section_refs ys"
  by (induction xs rule: section_refs.induct) simp_all

lemma section_named_iff:
  "k \<in> set (map (\<lambda>r. s_name (h r)) (section_refs xs)) \<longleftrightarrow> (\<exists>x\<in>set xs. is_section_named h k x)"
proof (induction xs)
  case Nil
  then show ?case by simp
next
  case (Cons x xs)
  then show ?case by (cases x) auto
qed

lemma contains_section_idx:
  assumes "Document_contains st key"
  shows "\<exists>idx. Document_get_section_idx st key = Some idx \<and> idx < length (d_structure st)
           \<and> is_section_named (heap st) key (d_structure st ! idx)"
proof -
  from assms have "\<exists>x\<in>set (d_structure st). is_section_named (heap st) key x"
    by (simp add: Document_contains_iff Document_sections_def Document_iter_sections_def
        section_named_iff del: set_map)
  then have "next_idx (is_section_named (heap st) key) (d_structure st) \<noteq> None"
    by (simp add: next_idx_None_iff)
  then obtain idx where i: "next_idx (is_section_named (heap st) key) (d_structure st) = Some idx"
    by blast
  from next_idx_SomeD[OF i] i show ?thesis
    by (simp add: Document_get_section_idx_def)
qed

lemma setitem_existing:
  assumes "Document_contains st key"
  shows "\<exists>idx. Document_get_section_idx st key = Some idx \<and> idx < length (d_structure st)
           \<and> is_section_named (heap st) key (d_structure st ! idx)
           \<and> Document_setitem st key (PySection r) =
               (Inr (), st\<lparr>d_structure := (d_structure st)[idx := SectionB r]\<rparr>)"
proof -
  from contains_section_idx[OF assms] obtain idx where
    i: "Document_get_section_idx st key = Some idx" "idx < length (d_structure st)"
       "is_section_named (heap st) key (d_structure st ! idx)"
    by blast
  then show ?thesis
    using assms by (simp add: Document_setitem_def list_del_insert)
qed

lemma setitem_new:
  assumes "\<not> Document_contains st key"
  shows "Document_setitem st key (PySection r) =
           add_section_obj (st\<lparr>heap := (heap st)(r := Section_set_name (heap st r) key)\<rparr>) r"
  using assms by (simp add: Document_setitem_def Document_add_section_def)

lemma renamed_has_section:
  assumes "\<not> Document_contains st key"
  shows "has_section (st\<lparr>heap := (heap st)(r := Section_set_name (heap st r) key)\<rparr>) key
           \<longleftrightarrow> r \<in> set (Document_iter_sections st)"
proof -
  let ?st1 = "st\<lparr>heap := (heap st)(r := Section_set_name (heap st r) key)\<rparr>"
  have refs: "Document_iter_sections ?st1 = Document_iter_sections st"
    by (simp add: Document_iter_sections_def)
  have nokey: "\<forall>q\<in>set (Document_iter_sections st). s_name (heap st q) \<noteq> key"
    using assms by (auto simp: Document_contains_iff Document_sections_def)
  have names: "Document_sections ?st1
      = map (\<lambda>q. if q = r then key else s_name (heap st q)) (Document_iter_sections st)"
    by (auto simp: Document_sections_def Document_iter_sections_def Section_set_name_def)
  have "has_section ?st1 key \<longleftrightarrow>
          (\<exists>q\<in>set (Document_iter_sections st). (if q = r then key else s_name (heap st q)) = key)"
    unfolding has_section_def Document_contains_iff names by auto
  also have "\<dots> \<longleftrightarrow> r \<in> set (Document_iter_sections st)"
    using nokey by auto
  finally show ?thesis .
qed






lemma ex_doc_wf: "wf_state ex_doc"
  by (simp add: wf_state_def ex_doc_sections) (simp add: ex_doc_def)

lemma ex_doc_names: "Document_sections ex_doc = [''main'', ''extra'']"
  by (simp add: Document_sections_def ex_doc_sections ex_doc_heap ex_names)

lemma ex_doc_has:
  "has_section ex_doc ''main''" "\<not> has_section ex_doc ''fresh''"
  "\<not> has_section ex_doc ''loose''" "\<not> has_section ex_doc ''renamed''"
  "has_section ex_doc ''extra''"
  by (simp_all add: has_section_def Document_contains_iff ex_doc_names)

lemma ex_doc_structure: "d_structure ex_doc = [SpaceD [''\<newline>''], SectionB 0, SectionB 1]"
  "fresh ex_doc = 3"
  by (simp_all add: ex_doc_def)



lemma concat_split_lines: "concat (split_lines t) = t"
  by (induction t) (auto split: list.splits)

lemma Section_str_eq:
  "Section_str synth s =
     (if \<not> Section_updated s then Block_str (s_lines s) else ''['' @ s_name s @ '']\<newline>'')
     @ concat (map (entry_str synth) (s_structure s))"
  by (simp add: Section_str_def foldl_append_concat)

lemma Section_str_append:
  "Section_str synth (s\<lparr>s_structure := s_structure s @ [x]\<rparr>)
     = Section_str synth s @ entry_str synth x"
  by (simp add: Section_str_eq Section_updated_def)

lemma Section_str_replace_last:
  assumes "last_block (s_structure s) = Some x"
    and "entry_str synth x' = entry_str synth x @ l"
  shows "Section_str synth (s\<lparr>s_structure := butlast (s_structure s) @ [x']\<rparr>)
           = Section_str synth s @ l"
proof -
  from assms(1) have b: "butlast (s_structure s) @ [x] = s_structure s"
    by (auto simp: last_block_def split: if_splits)
  have "concat (map (entry_str synth) (butlast (s_structure s) @ [x]))
      = concat (map (entry_str synth) (butlast (s_structure s))) @ entry_str synth x"
    by simp
  then have "concat (map (entry_str synth) (s_structure s))
      = concat (map (entry_str synth) (butlast (s_structure s))) @ entry_str synth x"
    by (simp only: b)
  with assms(2) show ?thesis
    by (simp add: Section_str_eq Section_updated_def)
qed

lemma Section_str_add_comment:
  "Section_str synth (Section_add_comment s line) = Section_str synth s @ line"
proof (cases "last_block (s_structure s)")
  case None
  then show ?thesis
    by (simp add: Section_add_comment_def Section_str_append Block_str_def)
next
  case (Some x)
  show ?thesis
  proof (cases x)
    case (CommentB ls)
    with Some Section_str_replace_last[OF Some, of synth "CommentB (ls @ [line])" line]
    show ?thesis by (simp add: Section_add_comment_def Block_str_def)
  qed (use Some in \<open>simp_all add: Section_add_comment_def Section_str_append Block_str_def\<close>)
qed

lemma Section_str_add_space:
  "Section_str synth (Section_add_space s line) = Section_str synth s @ line"
proof (cases "last_block (s_structure s)")
  case None
  then show ?thesis
    by (simp add: Section_add_space_def Section_str_append Block_str_def)
next
  case (Some x)
  show ?thesis
  proof (cases x)
    case (SpaceB ls)
    with Some Section_str_replace_last[OF Some, of synth "SpaceB (ls @ [line])" line]
    show ?thesis by (simp add: Section_add_space_def Block_str_def)
  qed (use Some in \<open>simp_all add: Section_add_space_def Section_str_append Block_str_def\<close>)
qed

lemma Section_str_add_parsed_option:
  "Section_str synth (Section_add_option s
       \<lparr>o_key = k, o_value = v, o_lines = [line], o_updated = False, o_container = c\<rparr>)
     = Section_str synth s @ line"
  by (simp add: Section_add_option_def Section_str_append Option_str_def Option_updated_def
      Block_str_def)

lemma Section_str_add_continuation:
  assumes "add_continuation s line v = Some s'"
    and "last_block (s_structure s) = Some (OptionB opt)" and "\<not> Option_updated opt"
  shows "Section_str synth s' = Section_str synth s @ line
         \<and> (\<exists>opt'. last_block (s_structure s') = Some (OptionB opt') \<and> \<not> Option_updated opt')"
proof -
  let ?o = "opt\<lparr>o_lines := o_lines opt @ [line],
               o_value := (case o_value opt of None \<Rightarrow> Some v
                           | Some x \<Rightarrow> Some (x @ [CHR 0x0A] @ v))\<rparr>"
  from assms(1,2) have s': "s' = s\<lparr>s_structure := butlast (s_structure s) @ [OptionB ?o]\<rparr>"
    by (simp add: add_continuation_def)
  have e: "entry_str synth (OptionB ?o) = entry_str synth (OptionB opt) @ line"
    using assms(3) by (simp add: Option_str_def Option_updated_def Block_str_def)
  have u: "\<not> Option_updated ?o"
    using assms(3) by (simp add: Option_updated_def)
  from Section_str_replace_last[OF assms(2) e] u show ?thesis
    by (auto simp: s' last_block_def)
qed


lemma block_str_heap_upd:
  "r \<notin> set (section_refs xs) \<Longrightarrow>
   map (block_str synth (h(r := s'))) xs = map (block_str synth h) xs"
proof (induction xs)
  case Nil
  then show ?case by simp
next
  case (Cons x xs)
  then show ?case by (cases x) simp_all
qed

lemma section_refs_butlast:
  "set (section_refs (butlast xs)) \<subseteq> set (section_refs xs)"
proof (cases "xs = []")
  case True
  then show ?thesis by simp
next
  case False
  then have "section_refs xs = section_refs (butlast xs) @ section_refs [last xs]"
    by (metis append_butlast_last_id section_refs_append)
  then show ?thesis by simp
qed

lemma wf_state_on_section: "wf_state (on_section st r f) = wf_state st"
  by (simp add: wf_state_def on_section_def Document_iter_sections_def)

lemma Document_str_on_section:
  assumes "d_structure st \<noteq> []" and "last (d_structure st) = SectionB r"
    and "r \<notin> set (section_refs (butlast (d_structure st)))"
    and "Section_str synth (f (heap st r)) = Section_str synth (heap st r) @ line"
  shows "Document_str synth (on_section st r f) = Document_str synth st @ line"
proof -
  let ?b = "butlast (d_structure st)"
  from assms(1,2) have d: "?b @ [SectionB r] = d_structure st"
    by (metis append_butlast_last_id)
  have "Document_str synth (on_section st r f)
      = concat (map (block_str synth ((heap st)(r := f (heap st r)))) (?b @ [SectionB r]))"
    by (simp only: d) (simp add: Document_str_def on_section_def)
  also have "\<dots> = concat (map (block_str synth (heap st)) ?b) @ Section_str synth (f (heap st r))"
    by (simp add: block_str_heap_upd[OF assms(3)])
  also have "\<dots> = concat (map (block_str synth (heap st)) (?b @ [SectionB r])) @ line"
    by (simp add: assms(4))
  also have "\<dots> = Document_str synth st @ line"
    by (simp only: d) (simp add: Document_str_def)
  finally show ?thesis .
qed

lemma Document_str_append:
  "Document_str synth (st\<lparr>d_structure := d_structure st @ [x]\<rparr>)
     = Document_str synth st @ block_str synth (heap st) x"
  by (simp add: Document_str_def)

lemma Document_str_replace_last:
  assumes "last_block (d_structure st) = Some x"
    and "block_str synth (heap st) x' = block_str synth (heap st) x @ l"
  shows "Document_str synth (st\<lparr>d_structure := butlast (d_structure st) @ [x']\<rparr>)
           = Document_str synth st @ l"
proof -
  from assms(1) have b: "butlast (d_structure st) @ [x] = d_structure st"
    by (auto simp: last_block_def split: if_splits)
  have "concat (map (block_str synth (heap st)) (butlast (d_structure st) @ [x]))
      = concat (map (block_str synth (heap st)) (butlast (d_structure st)))
        @ block_str synth (heap st) x"
    by simp
  then have "concat (map (block_str synth (heap st)) (d_structure st))
      = concat (map (block_str synth (heap st)) (butlast (d_structure st)))
        @ block_str synth (heap st) x"
    by (simp only: b)
  with assms(2) show ?thesis
    by (simp add: Document_str_def)
qed

lemma Document_add_comment_props:
  "Document_str synth (Document_add_comment st line) = Document_str synth st @ line"
  "wf_state st \<Longrightarrow> wf_state (Document_add_comment st line)"
proof -
  show "Document_str synth (Document_add_comment st line) = Document_str synth st @ line"
  proof (cases "last_block (d_structure st)")
    case None
    then show ?thesis
      by (simp add: Document_add_comment_def Document_str_append Block_str_def)
  next
    case (Some x)
    show ?thesis
    proof (cases x)
      case (CommentD ls)
      with Some Document_str_replace_last[OF Some, of synth "CommentD (ls @ [line])" line]
      show ?thesis by (simp add: Document_add_comment_def Block_str_def)
    qed (use Some in \<open>simp_all add: Document_add_comment_def Document_str_append Block_str_def\<close>)
  qed
  show "wf_state st \<Longrightarrow> wf_state (Document_add_comment st line)"
    using section_refs_butlast[of "d_structure st"]
    by (auto simp: wf_state_def Document_add_comment_def Document_iter_sections_def
        section_refs_append list_all_iff split: option.splits config_content.splits)
qed

lemma Document_add_space_props:
  "Document_str synth (Document_add_space st line) = Document_str synth st @ line"
  "wf_state st \<Longrightarrow> wf_state (Document_add_space st line)"
proof -
  show "Document_str synth (Document_add_space st line) = Document_str synth st @ line"
  proof (cases "last_block (d_structure st)")
    case None
    then show ?thesis
      by (simp add: Document_add_space_def Document_str_append Block_str_def)
  next
    case (Some x)
    show ?thesis
    proof (cases x)
      case (SpaceD ls)
      with Some Document_str_replace_last[OF Some, of synth "SpaceD (ls @ [line])" line]
      show ?thesis by (simp add: Document_add_space_def Block_str_def)
    qed (use Some in \<open>simp_all add: Document_add_space_def Document_str_append Block_str_def\<close>)
  qed
  show "wf_state st \<Longrightarrow> wf_state (Document_add_space st line)"
    using section_refs_butlast[of "d_structure st"]
    by (auto simp: wf_state_def Document_add_space_def Document_iter_sections_def
        section_refs_append list_all_iff split: option.splits config_content.splits)
qed


lemma parser_inv_on_section:
  assumes inv: "parser_inv synth p seen" and cur: "p_cursect p = Some r"
    and str: "Section_str synth (f (heap (p_doc p) r)) = Section_str synth (heap (p_doc p) r) @ line"
    and mode: "m = InOptionValue \<Longrightarrow>
       \<exists>opt. last_block (s_structure (f (heap (p_doc p) r))) = Some (OptionB opt)
             \<and> \<not> Option_updated opt"
  shows "parser_inv synth
           \<lparr>p_doc = on_section (p_doc p) r f, p_mode = m, p_cursect = Some r, p_lineno = n\<rparr>
           (seen @ line)"
proof -
  from inv cur have
    i: "Document_str synth (p_doc p) = seen" "wf_state (p_doc p)"
       "d_structure (p_doc p) \<noteq> []" "last (d_structure (p_doc p)) = SectionB r"
       "r \<notin> set (section_refs (butlast (d_structure (p_doc p))))"
    by (simp_all add: parser_inv_def)
  have d: "Document_str synth (on_section (p_doc p) r f) = seen @ line"
    using Document_str_on_section[where st = "p_doc p" and r = r and f = f and synth = synth
        and line = line, OF i(3) i(4) i(5) str] i(1) by simp
  have s: "d_structure (on_section (p_doc p) r f) = d_structure (p_doc p)"
          "heap (on_section (p_doc p) r f) r = f (heap (p_doc p) r)"
    by (simp_all add: on_section_def)
  show ?thesis
    using d i mode by (simp add: parser_inv_def wf_state_on_section s)
qed

lemma last_block_snoc: "last_block (xs @ [x]) = Some x"
  by (simp add: last_block_def)

lemma parser_inv_header:
  assumes inv: "parser_inv synth p seen" and c: "classify line = Header nm"
    and step: "parse_line classify p line = Inr p'"
  shows "parser_inv synth p' (seen @ line)"
proof -
  let ?st = "p_doc p"
  let ?r = "fresh ?st"
  let ?s = "\<lparr>s_name = nm, s_structure = [], s_updated = False, s_lines = [line]\<rparr>"
  let ?st2 = "?st\<lparr>heap := (heap ?st)(?r := ?s), fresh := Suc ?r\<rparr>"
  from inv have i: "Document_str synth ?st = seen" "wf_state ?st"
    by (simp_all add: parser_inv_def)
  have st2: "on_section (snd (new_Section ?st nm)) ?r (\<lambda>s. s\<lparr>s_lines := s_lines s @ [line]\<rparr>) = ?st2"
    by (simp add: on_section_def new_Section_def Section_init_def)
  from step c have p': "p' = \<lparr>p_doc = ?st2\<lparr>d_structure := d_structure ?st @ [SectionB ?r]\<rparr>,
      p_mode = InSectionHeader, p_cursect = Some ?r, p_lineno = Suc (p_lineno p)\<rparr>"
    unfolding parse_line_def Let_def
    by (simp add: split_beta st2 new_Section_simps Document_add_section_def add_section_obj_def
        split: if_splits)
  have fr: "?r \<notin> set (section_refs (d_structure ?st))"
    using i(2) by (auto simp: wf_state_def Document_iter_sections_def list_all_iff)
  have "Document_str synth (?st2\<lparr>d_structure := d_structure ?st @ [SectionB ?r]\<rparr>)
      = concat (map (block_str synth ((heap ?st)(?r := ?s))) (d_structure ?st)) @ Section_str synth ?s"
    by (simp add: Document_str_def)
  also have "\<dots> = Document_str synth ?st @ line"
    by (simp add: block_str_heap_upd[OF fr] Document_str_def Section_str_eq Section_updated_def
        Block_str_def)
  finally have d: "Document_str synth (?st2\<lparr>d_structure := d_structure ?st @ [SectionB ?r]\<rparr>)
      = seen @ line"
    using i(1) by simp
  have w: "wf_state (?st2\<lparr>d_structure := d_structure ?st @ [SectionB ?r]\<rparr>)"
    using i(2)
    by (auto simp: wf_state_def Document_iter_sections_def section_refs_append list_all_iff)
  show ?thesis
    using d w fr by (simp add: p' parser_inv_def)
qed

lemma parser_inv_step:
  assumes inv: "parser_inv synth p seen" and step: "parse_line classify p line = Inr p'"
  shows "parser_inv synth p' (seen @ line)"
proof (cases "classify line")
  case (Header nm)
  from parser_inv_header[OF inv Header step] show ?thesis .
next
  case (KeyValue k v)
  with step obtain r where cur: "p_cursect p = Some r"
    and p': "p' = \<lparr>p_doc = on_section (p_doc p) r (\<lambda>s. Section_add_option s
                    \<lparr>o_key = k, o_value = v, o_lines = [line], o_updated = False,
                     o_container = Some r\<rparr>),
                  p_mode = InOptionValue, p_cursect = Some r, p_lineno = Suc (p_lineno p)\<rparr>"
    by (auto simp: parse_line_def Let_def split: option.splits)
  show ?thesis
    unfolding p'
    by (rule parser_inv_on_section[OF inv cur])
       (simp_all add: Section_add_option_def Section_str_append Option_str_def
          Option_updated_def Block_str_def last_block_snoc)
next
  case (Indented v)
  with step obtain r s' where cur: "p_cursect p = Some r" and m: "p_mode p = InOptionValue"
    and k: "add_continuation (heap (p_doc p) r) line v = Some s'"
    and p': "p' = \<lparr>p_doc = on_section (p_doc p) r (\<lambda>_. s'), p_mode = InOptionValue,
                  p_cursect = Some r, p_lineno = Suc (p_lineno p)\<rparr>"
    by (auto simp: parse_line_def Let_def split: option.splits if_splits)
  from inv cur m obtain opt where
    o: "last_block (s_structure (heap (p_doc p) r)) = Some (OptionB opt)" "\<not> Option_updated opt"
    by (auto simp: parser_inv_def)
  note c = Section_str_add_continuation[OF k o, of synth]
  show ?thesis
    unfolding p'
    by (rule parser_inv_on_section[OF inv cur]) (use c in \<open>simp_all\<close>)
next
  case Blank
  show ?thesis
  proof (cases "p_cursect p")
    case None
    with step Blank have p': "p' = \<lparr>p_doc = Document_add_space (p_doc p) line,
        p_mode = InBlankRun, p_cursect = None, p_lineno = Suc (p_lineno p)\<rparr>"
      by (auto simp: parse_line_def Let_def)
    from inv show ?thesis
      by (simp add: p' parser_inv_def Document_add_space_props)
  next
    case (Some r)
    with step Blank have p': "p' = \<lparr>p_doc = on_section (p_doc p) r (\<lambda>s. Section_add_space s line),
        p_mode = InBlankRun, p_cursect = Some r, p_lineno = Suc (p_lineno p)\<rparr>"
      by (auto simp: parse_line_def Let_def)
    show ?thesis
      unfolding p'
      by (rule parser_inv_on_section[OF inv Some]) (simp_all add: Section_str_add_space)
  qed
next
  case CommentLine
  show ?thesis
  proof (cases "p_cursect p")
    case None
    with step CommentLine have p': "p' = \<lparr>p_doc = Document_add_comment (p_doc p) line,
        p_mode = InCommentRun, p_cursect = None, p_lineno = Suc (p_lineno p)\<rparr>"
      by (auto simp: parse_line_def Let_def)
    from inv show ?thesis
      by (simp add: p' parser_inv_def Document_add_comment_props)
  next
    case (Some r)
    with step CommentLine have p': "p' = \<lparr>p_doc = on_section (p_doc p) r (\<lambda>s. Section_add_comment s line),
        p_mode = InCommentRun, p_cursect = Some r, p_lineno = Suc (p_lineno p)\<rparr>"
      by (auto simp: parse_line_def Let_def)
    show ?thesis
      unfolding p'
      by (rule parser_inv_on_section[OF inv Some]) (simp_all add: Section_str_add_comment)
  qed
next
  case Unknown
  with step show ?thesis by (simp add: parse_line_def Let_def)
qed

lemma parser_inv_lines:
  "parser_inv synth p seen \<Longrightarrow> parse_lines classify p ls = Inr p' \<Longrightarrow>
   parser_inv synth p' (seen @ concat ls)"
proof (induction ls arbitrary: p seen)
  case Nil
  then show ?case by simp
next
  case (Cons l ls)
  from Cons.prems(2) obtain q where
    q: "parse_line classify p l = Inr q" "parse_lines classify q ls = Inr p'"
    by (auto split: sum.splits)
  from parser_inv_step[OF Cons.prems(1) q(1)] have "parser_inv synth q (seen @ l)" .
  from Cons.IH[OF this q(2)] show ?case by simp
qed

lemma parser_inv_init:
  "parser_inv synth
     \<lparr>p_doc = empty_document, p_mode = BeforeAnySection, p_cursect = None, p_lineno = 0\<rparr> []"
  by (simp add: parser_inv_def empty_document_def Document_str_def wf_state_def
      Document_iter_sections_def)

lemma ex_text_parses:
  "(case parse ini_classify ex_text of Inl _ \<Rightarrow> False | Inr st \<Rightarrow>
      Document_sections st = [''options.extras_require'', ''extra'']
      \<and> Document_options st ''options.extras_require'' = Inr [''testing'']
      \<and> Document_options st ''extra'' = Inr [''key''])"
  by code_simp

lemma ex_main_parsed:
  "(case parse ini_classify ''[main]\<newline># note\<newline>Key = 1\<newline>other = 2\<newline>'' of
      Inl _ \<Rightarrow> False | Inr st \<Rightarrow> d_structure st = [SectionB 0] \<and> heap st 0 = ex_main)"
  by code_simp

lemma ex_bad_text:
  "(case parse ini_classify ''key = 1\<newline>'' of
      Inl e \<Rightarrow> e = ParseError 1 ''key = 1\<newline>'' | Inr _ \<Rightarrow> False)"
  by code_simp





lemma ex_foreign_owner:
  "Section_getitem (heap ex_doc1 1) ''new'' = Inr ex_opt_moved
   \<and> s_structure (heap ex_doc2 0)
       = [CommentB [''# note\<newline>''], OptionB ex_opt_key, OptionB ex_opt_other, OptionB ex_opt_moved]
   \<and> fst (Section_setitem ex_doc2 0 ''new'' (VOption ex_opt_plain)) = Inr ()
   \<and> s_structure (heap (snd (Section_setitem ex_doc2 0 ''new'' (VOption ex_opt_plain))) 0)
       = [OptionB ex_opt_plain, OptionB ex_opt_key, OptionB ex_opt_other, OptionB ex_opt_moved]"
  by code_simp

section \<open>Claims\<close>

text \<open>
  C1. \<^verbatim>\<open>Document.get(section, option, fallback)\<close> is a two-level lookup with an
  asymmetric fallback. When the named section is absent it raises \<^verbatim>\<open>NoSectionError\<close>
  whatever the fallback is. When the section exists (\<open>r\<close> is the section that
  \<^verbatim>\<open>__getitem__\<close> finds) and holds no option of the normalised key, a supplied fallback
  is returned, \<^verbatim>\<open>None\<close> included, and without a fallback (the sentinel \<^verbatim>\<open>_UNSET\<close>)
  \<^verbatim>\<open>NoOptionError\<close> is raised.
\<close>

theorem C1_document_get_fallback:
  "(\<not> has_section st sec \<longrightarrow> Document_get st sec opt fb = Inl (NoSectionError sec))
   \<and> (Document_getitem st sec = Inr r \<and> \<not> Section_contains (heap st r) (optionxform opt)
        \<and> fb \<noteq> UNSET \<longrightarrow> Document_get st sec opt fb = Inr fb)
   \<and> (Document_getitem st sec = Inr r \<and> \<not> Section_contains (heap st r) (optionxform opt)
        \<longrightarrow> Document_get st sec opt PyNone = Inr PyNone)
   \<and> (Document_getitem st sec = Inr r \<and> \<not> Section_contains (heap st r) (optionxform opt)
        \<longrightarrow> Document_get st sec opt UNSET = Inl (NoOptionError (optionxform opt) sec))"
  by (auto simp: has_section_def Document_contains_def Document_get_def Document_get_section_def
      Document_getitem_def Section_get_def Section_contains_def
      split: option.splits)

theorem C1_witness:
  "Document_get ex_doc ''missing'' ''k'' (PyStr ''x'') = Inl (NoSectionError ''missing'')
   \<and> Document_get ex_doc ''main'' ''nokey'' (PyStr ''x'') = Inr (PyStr ''x'')
   \<and> Document_get ex_doc ''main'' ''nokey'' PyNone = Inr PyNone
   \<and> Document_get ex_doc ''main'' ''nokey'' UNSET = Inl (NoOptionError ''nokey'' ''main'')"
proof -
  have h1: "\<not> has_section ex_doc ''missing''"
    by (simp add: has_section_def Document_contains_def ex_doc_sections ex_doc_heap ex_names)
  have h2: "Document_getitem ex_doc ''main'' = Inr 0"
    by (simp add: Document_getitem_def ex_doc_sections ex_doc_heap ex_names)
  have h3: "\<not> Section_contains (heap ex_doc 0) (optionxform ''nokey'')"
    by (simp add: Section_contains_def ex_doc_heap ex_main_options ex_keys)
  from h1 h2 h3 show ?thesis
    using C1_document_get_fallback[of ex_doc "''missing''" "''k''" "PyStr ''x''" 0]
      C1_document_get_fallback[of ex_doc "''main''" "''nokey''" "PyStr ''x''" 0]
    by (simp add: ex_keys)
qed

text \<open>
  C2. Round trip: for every text that the parser accepts, whatever the line grammar
  \<open>classify\<close>, stringifying the parsed document (the renderings of its blocks
  concatenated in container order) gives back the text, character for character.
\<close>

theorem C2_parse_render_roundtrip:
  "parse classify t = Inr st \<Longrightarrow> Document_str synth st = t"
proof -
  assume "parse classify t = Inr st"
  then obtain p where
    p: "parse_lines classify
          \<lparr>p_doc = empty_document, p_mode = BeforeAnySection, p_cursect = None, p_lineno = 0\<rparr>
          (split_lines t) = Inr p" "st = p_doc p"
    by (auto simp: parse_def split: sum.splits)
  from parser_inv_lines[OF parser_inv_init p(1), of synth]
  show ?thesis
    by (simp add: parser_inv_def concat_split_lines p(2))
qed


theorem C2_witness:
  "\<exists>st. parse ini_classify ex_text = Inr st \<and> Document_str (\<lambda>_. []) st = ex_text
        \<and> Document_sections st = [''options.extras_require'', ''extra'']"
proof -
  from ex_text_parses obtain st where
    st: "parse ini_classify ex_text = Inr st"
        "Document_sections st = [''options.extras_require'', ''extra'']"
    by (cases "parse ini_classify ex_text") auto
  from C2_parse_render_roundtrip[OF st(1), of "\<lambda>_. []"] st show ?thesis by blast
qed





text \<open>
  C4. \<^verbatim>\<open>Document.add_section\<close> on a document whose sections are allocated objects. A
  string or a \<^verbatim>\<open>Section\<close> whose name is already a section name raises
  \<^verbatim>\<open>DuplicateSectionError\<close>; an argument that is neither a string nor a \<^verbatim>\<open>Section\<close>
  raises \<^verbatim>\<open>ValueError\<close>; in each of these cases the structure of the document and the
  sections it holds are as before. A string that is not yet a section name appends a
  newly constructed section of that name at the end, and a \<^verbatim>\<open>Section\<close> whose name is
  not yet a section name is appended at the end.
\<close>

theorem C4_add_section:
  assumes "wf_state st"
  shows
  "(has_section st nm \<longrightarrow>
      fst (Document_add_section st (PyStr nm)) = Inl (DuplicateSectionError nm)
      \<and> d_structure (snd (Document_add_section st (PyStr nm))) = d_structure st
      \<and> (\<forall>r'\<in>set (Document_iter_sections st).
            heap (snd (Document_add_section st (PyStr nm))) r' = heap st r'))
   \<and> (has_section st (s_name (heap st r)) \<longrightarrow>
      Document_add_section st (PySection r) =
        (Inl (DuplicateSectionError (s_name (heap st r))), st))
   \<and> ((\<forall>n. v \<noteq> PyStr n) \<and> (\<forall>q. v \<noteq> PySection q) \<longrightarrow>
      (\<exists>msg. Document_add_section st v = (Inl (ValueError msg), st)))
   \<and> (\<not> has_section st nm \<longrightarrow>
      fst (Document_add_section st (PyStr nm)) = Inr ()
      \<and> d_structure (snd (Document_add_section st (PyStr nm)))
          = d_structure st @ [SectionB (fresh st)]
      \<and> heap (snd (Document_add_section st (PyStr nm))) (fresh st) = Section_init nm
      \<and> (\<forall>r'\<in>set (Document_iter_sections st).
            heap (snd (Document_add_section st (PyStr nm))) r' = heap st r'))
   \<and> (\<not> has_section st (s_name (heap st r)) \<longrightarrow>
      Document_add_section st (PySection r) =
        (Inr (), st\<lparr>d_structure := d_structure st @ [SectionB r]\<rparr>))"
proof -
  let ?st' = "snd (new_Section st nm)"
  have str: "Document_add_section st (PyStr nm) = add_section_obj ?st' (fresh st)"
    by (simp add: Document_add_section_def new_Section_def)
  have nm: "s_name (heap ?st' (fresh st)) = nm"
    by (simp add: new_Section_simps Section_init_def)
  have old: "\<forall>r'\<in>set (Document_iter_sections st). heap ?st' r' = heap st r'"
    using assms by (auto simp: wf_state_def list_all_iff new_Section_simps)
  have dup: "has_section st nm \<Longrightarrow>
      add_section_obj ?st' (fresh st) = (Inl (DuplicateSectionError nm), ?st')"
    using has_section_new_Section[OF assms, of nm nm] nm by (simp add: add_section_obj_def)
  have app: "\<not> has_section st nm \<Longrightarrow>
      add_section_obj ?st' (fresh st) =
        (Inr (), ?st'\<lparr>d_structure := d_structure ?st' @ [SectionB (fresh st)]\<rparr>)"
    using has_section_new_Section[OF assms, of nm nm] nm by (simp add: add_section_obj_def)
  have other: "(\<forall>n. v \<noteq> PyStr n) \<and> (\<forall>q. v \<noteq> PySection q) \<Longrightarrow>
      \<exists>msg. Document_add_section st v = (Inl (ValueError msg), st)"
    by (cases v) (simp_all add: Document_add_section_def)
  show ?thesis
    using str dup app old other
    by (auto simp: new_Section_simps Document_add_section_def add_section_obj_def)
qed


theorem C4_witness:
  "fst (Document_add_section ex_doc (PyStr ''main'')) = Inl (DuplicateSectionError ''main'')
   \<and> d_structure (snd (Document_add_section ex_doc (PyStr ''main''))) = d_structure ex_doc
   \<and> Document_add_section ex_doc (PySection 0) = (Inl (DuplicateSectionError ''main''), ex_doc)
   \<and> (\<exists>msg. Document_add_section ex_doc PyNone = (Inl (ValueError msg), ex_doc))
   \<and> fst (Document_add_section ex_doc (PyStr ''fresh'')) = Inr ()
   \<and> d_structure (snd (Document_add_section ex_doc (PyStr ''fresh'')))
       = [SpaceD [''\<newline>''], SectionB 0, SectionB 1, SectionB 3]
   \<and> Document_add_section ex_doc (PySection 2) =
       (Inr (), ex_doc\<lparr>d_structure := [SpaceD [''\<newline>''], SectionB 0, SectionB 1, SectionB 2]\<rparr>)"
  using C4_add_section[OF ex_doc_wf, of "''main''" 0 PyNone]
    C4_add_section[OF ex_doc_wf, of "''fresh''" 2 PyNone] ex_doc_has
  by (simp add: ex_doc_heap ex_names ex_doc_structure)

text \<open>
  C5. Option lookup in a section by both access forms. \<^verbatim>\<open>Section.__getitem__\<close>
  normalises the key it is given; \<^verbatim>\<open>Section.get\<close> compares the key as passed with the
  normalised keys of the options. On the parsed section \<^verbatim>\<open>[main]\<close> with the line
  \<^verbatim>\<open>Key = 1\<close>, bracket access with \<^verbatim>\<open>"Key"\<close> returns the option, while \<^verbatim>\<open>get("Key")\<close>
  reports absence; \<^verbatim>\<open>get\<close> finds the option only under the already normalised key.
\<close>

theorem C5_get_compares_raw_key:
  "Section_getitem ex_main ''Key'' = Inr ex_opt_key
   \<and> Section_get ex_main ''Key'' PyNone = PyNone
   \<and> Section_get ex_main ''key'' PyNone = PyOption ex_opt_key"
  by (simp add: Section_getitem_def Section_get_def ex_main_options ex_keys ex_key_new)

text \<open>
  C6. \<^verbatim>\<open>Section.__setitem__\<close> with an existing key and an \<^verbatim>\<open>Option\<close> compares the
  normalised key of the \<^verbatim>\<open>Option\<close> with the key as passed. On the parsed section
  \<^verbatim>\<open>[main]\<close> with the line \<^verbatim>\<open>Key = 1\<close>, the key \<^verbatim>\<open>"KEY"\<close> exists (bracket access returns
  the option), and the \<^verbatim>\<open>Option\<close> assigned was constructed with that very key; yet the
  assignment raises \<^verbatim>\<open>ValueError\<close> and replaces nothing.
\<close>

theorem C6_setitem_rejects_matching_option:
  "o_key ex_opt_new = ''KEY''
   \<and> Section_contains (heap ex_doc 0) (optionxform ''KEY'')
   \<and> Section_getitem (heap ex_doc 0) ''KEY'' = Inr ex_opt_key
   \<and> Section_setitem ex_doc 0 ''KEY'' (VOption ex_opt_new) =
       (Inl (ValueError ''Set key KEY does not equal option key key''), ex_doc)"
  by (simp add: Section_setitem_def Let_def Section_getitem_def ex_doc_heap ex_main_options
      ex_main_contains ex_keys ex_key_new) (simp add: ex_opt_new_def Option_init_def)

text \<open>
  C7. \<^verbatim>\<open>Section.__delitem__\<close> looks the index up with the key as passed. On the parsed
  section \<^verbatim>\<open>[main]\<close> with the line \<^verbatim>\<open>Key = 1\<close>, bracket access with \<^verbatim>\<open>"Key"\<close> returns
  the option, while \<^verbatim>\<open>del section["Key"]\<close> raises \<^verbatim>\<open>KeyError\<close> and removes nothing;
  the option is removed only under the already normalised key.
\<close>

theorem C7_delitem_compares_raw_key:
  "Section_getitem ex_main ''Key'' = Inr ex_opt_key
   \<and> Section_delitem ex_main ''Key'' = (Inl (KeyError ''Key''), ex_main)
   \<and> Section_delitem ex_main ''key'' =
       (Inr (), ex_main\<lparr>s_structure := [CommentB [''# note\<newline>''], OptionB ex_opt_other]\<rparr>)"
  by (simp add: Section_getitem_def Section_delitem_def ex_main_options ex_keys ex_key_new
      ex_main_idx ex_main_structure list_del_def)

text \<open>
  C8. The name setter sets the dirty flag of a section, and a newly constructed section
  is dirty. A dirty section renders the synthesised header \<^verbatim>\<open>[name]\<close> and a newline,
  followed by the renderings of its blocks in order; a section that is not dirty renders
  its captured header text followed by the renderings of its blocks.
\<close>

theorem C8_section_dirty_flag_rendering:
  "Section_updated (Section_set_name s v) \<and> s_name (Section_set_name s v) = v
   \<and> Section_updated (Section_init nm)
   \<and> (Section_updated s \<longrightarrow>
        Section_str synth s =
          ''['' @ s_name s @ '']\<newline>'' @ concat (map (entry_str synth) (s_structure s)))
   \<and> (\<not> Section_updated s \<longrightarrow>
        Section_str synth s = concat (s_lines s) @ concat (map (entry_str synth) (s_structure s)))"
  by (simp add: Section_updated_def Section_set_name_def Section_init_def Section_str_def
      foldl_append_concat Block_str_def)

theorem C8_witness:
  "Section_updated (Section_set_name ex_main ''renamed'')
   \<and> Section_str (\<lambda>_. []) (Section_set_name ex_main ''renamed'')
       = ''[renamed]\<newline># note\<newline>Key = 1\<newline>other = 2\<newline>''
   \<and> \<not> Section_updated ex_main
   \<and> Section_str (\<lambda>_. []) ex_main = ''[main]\<newline># note\<newline>Key = 1\<newline>other = 2\<newline>''"
proof -
  have u: "Section_updated (Section_set_name ex_main ''renamed'')"
    by (simp add: Section_updated_def Section_set_name_def)
  have n: "\<not> Section_updated ex_main"
    by (simp add: Section_updated_def ex_main_def)
  have e: "concat (map (entry_str (\<lambda>_. [])) (s_structure ex_main))
             = ''# note\<newline>Key = 1\<newline>other = 2\<newline>''"
    by (simp add: ex_main_def ex_opt_key_def ex_opt_other_def Option_str_def Option_updated_def
        Block_str_def)
  from C8_section_dirty_flag_rendering[of ex_main "''renamed''" "[]" "\<lambda>_. []"] u n e
  show ?thesis
    using C8_section_dirty_flag_rendering[of "Section_set_name ex_main ''renamed''" "[]" "[]" "\<lambda>_. []"]
    by (simp add: Section_set_name_def ex_main_def)
qed

text \<open>
  C9, as stated, fails when the section passed is already a block of the document:
  with the document of \<^verbatim>\<open>[main]\<close> and \<^verbatim>\<open>[extra]\<close>, assigning the \<^verbatim>\<open>main\<close> section under
  the new key \<^verbatim>\<open>renamed\<close> renames the object and then raises \<^verbatim>\<open>DuplicateSectionError\<close>,
  because the document already holds a section of the new name, the one just renamed;
  nothing is appended.
\<close>

theorem C9_counterexample:
  "\<not> Document_contains ex_doc ''renamed''
   \<and> fst (Document_setitem ex_doc ''renamed'' (PySection 0)) = Inl (DuplicateSectionError ''renamed'')
   \<and> d_structure (snd (Document_setitem ex_doc ''renamed'' (PySection 0))) = d_structure ex_doc
   \<and> s_name (heap (snd (Document_setitem ex_doc ''renamed'' (PySection 0))) 0) = ''renamed''"
proof -
  have c: "\<not> Document_contains ex_doc ''renamed''"
    by (simp add: Document_contains_iff ex_doc_names)
  have r: "0 \<in> set (Document_iter_sections ex_doc)"
    by (simp add: ex_doc_sections)
  show ?thesis
    using c renamed_has_section[OF c, of 0] r
    by (simp add: setitem_new[OF c] add_section_obj_def Section_set_name_def)
qed

text \<open>
  C9, amended. \<^verbatim>\<open>Document.__setitem__(key, section)\<close> with a key that is not yet a
  section name overwrites the name of the section object passed with the key and marks
  it dirty, and changes no other object; when that object is not already a block of the
  document it is then appended at the end, and when it is, \<^verbatim>\<open>DuplicateSectionError\<close> is
  raised after the renaming and the structure is as before. With a key that already
  names a section, the object passed takes the place of the first section of that name
  and no object is changed, so its name is not set to the key.
\<close>

theorem C9_setitem_renames_argument:
  "(\<not> Document_contains st key \<longrightarrow>
      s_name (heap (snd (Document_setitem st key (PySection r))) r) = key
      \<and> Section_updated (heap (snd (Document_setitem st key (PySection r))) r)
      \<and> (\<forall>q. q \<noteq> r \<longrightarrow> heap (snd (Document_setitem st key (PySection r))) q = heap st q)
      \<and> (r \<notin> set (Document_iter_sections st) \<longrightarrow>
            fst (Document_setitem st key (PySection r)) = Inr ()
            \<and> d_structure (snd (Document_setitem st key (PySection r)))
                = d_structure st @ [SectionB r])
      \<and> (r \<in> set (Document_iter_sections st) \<longrightarrow>
            fst (Document_setitem st key (PySection r)) = Inl (DuplicateSectionError key)
            \<and> d_structure (snd (Document_setitem st key (PySection r))) = d_structure st))
   \<and> (Document_contains st key \<longrightarrow>
      (\<exists>idx. Document_get_section_idx st key = Some idx \<and> idx < length (d_structure st)
         \<and> is_section_named (heap st) key (d_structure st ! idx)
         \<and> Document_setitem st key (PySection r) =
             (Inr (), st\<lparr>d_structure := (d_structure st)[idx := SectionB r]\<rparr>))
      \<and> heap (snd (Document_setitem st key (PySection r))) = heap st)"
proof (intro conjI impI)
  assume a: "Document_contains st key"
  from setitem_existing[OF a, of r]
  show "\<exists>idx. Document_get_section_idx st key = Some idx \<and> idx < length (d_structure st)
         \<and> is_section_named (heap st) key (d_structure st ! idx)
         \<and> Document_setitem st key (PySection r) =
             (Inr (), st\<lparr>d_structure := (d_structure st)[idx := SectionB r]\<rparr>)" .
  from setitem_existing[OF a, of r]
  show "heap (snd (Document_setitem st key (PySection r))) = heap st" by auto
next
  assume a: "\<not> Document_contains st key"
  note e = setitem_new[OF a, of r]
  show "s_name (heap (snd (Document_setitem st key (PySection r))) r) = key"
    by (simp add: e add_section_obj_def Section_set_name_def)
  show "Section_updated (heap (snd (Document_setitem st key (PySection r))) r)"
    by (simp add: e add_section_obj_def Section_set_name_def Section_updated_def)
  show "\<forall>q. q \<noteq> r \<longrightarrow> heap (snd (Document_setitem st key (PySection r))) q = heap st q"
    by (simp add: e add_section_obj_def)
next
  assume a: "\<not> Document_contains st key" and b: "r \<notin> set (Document_iter_sections st)"
  note e = setitem_new[OF a, of r]
  from renamed_has_section[OF a, of r] b
  show "fst (Document_setitem st key (PySection r)) = Inr ()"
    by (simp add: e add_section_obj_def Section_set_name_def)
  from renamed_has_section[OF a, of r] b
  show "d_structure (snd (Document_setitem st key (PySection r))) = d_structure st @ [SectionB r]"
    by (simp add: e add_section_obj_def Section_set_name_def)
next
  assume a: "\<not> Document_contains st key" and b: "r \<in> set (Document_iter_sections st)"
  note e = setitem_new[OF a, of r]
  from renamed_has_section[OF a, of r] b
  show "fst (Document_setitem st key (PySection r)) = Inl (DuplicateSectionError key)"
    by (simp add: e add_section_obj_def Section_set_name_def)
  from renamed_has_section[OF a, of r] b
  show "d_structure (snd (Document_setitem st key (PySection r))) = d_structure st"
    by (simp add: e add_section_obj_def Section_set_name_def)
qed


theorem C9_witness:
  "fst (Document_setitem ex_doc ''renamed'' (PySection 2)) = Inr ()
   \<and> d_structure (snd (Document_setitem ex_doc ''renamed'' (PySection 2)))
       = [SpaceD [''\<newline>''], SectionB 0, SectionB 1, SectionB 2]
   \<and> s_name (heap (snd (Document_setitem ex_doc ''renamed'' (PySection 2))) 2) = ''renamed''
   \<and> Section_updated (heap (snd (Document_setitem ex_doc ''renamed'' (PySection 2))) 2)
   \<and> fst (Document_setitem ex_doc ''renamed'' (PySection 0)) = Inl (DuplicateSectionError ''renamed'')
   \<and> Document_setitem ex_doc ''extra'' (PySection 2) =
       (Inr (), ex_doc\<lparr>d_structure := [SpaceD [''\<newline>''], SectionB 0, SectionB 2]\<rparr>)
   \<and> s_name (heap (snd (Document_setitem ex_doc ''extra'' (PySection 2))) 2) = ''loose''"
proof -
  have c: "\<not> Document_contains ex_doc ''renamed''" "Document_contains ex_doc ''extra''"
    by (simp_all add: Document_contains_iff ex_doc_names)
  have r: "2 \<notin> set (Document_iter_sections ex_doc)" "0 \<in> set (Document_iter_sections ex_doc)"
    by (simp_all add: ex_doc_sections)
  have i: "Document_get_section_idx ex_doc ''extra'' = Some 2"
    by (simp add: Document_get_section_idx_def ex_doc_structure ex_doc_heap ex_names)
  from c r i
    C9_setitem_renames_argument[of ex_doc "''renamed''" 2]
    C9_setitem_renames_argument[of ex_doc "''renamed''" 0]
    C9_setitem_renames_argument[of ex_doc "''extra''" 2]
  show ?thesis
    by (auto simp: ex_doc_structure ex_doc_heap ex_names)
qed

text \<open>
  C10. When the named section does not exist, \<^verbatim>\<open>Document.has_option\<close> returns
  \<^verbatim>\<open>False\<close> and raises nothing, whereas \<^verbatim>\<open>Document.get\<close> and \<^verbatim>\<open>Document.options\<close>
  raise \<^verbatim>\<open>NoSectionError\<close>.
\<close>

theorem C10_has_option_missing_section:
  "\<not> has_section st sec \<Longrightarrow>
     Document_has_option st sec opt = Inr False
     \<and> Document_get st sec opt fb = Inl (NoSectionError sec)
     \<and> Document_options st sec = Inl (NoSectionError sec)"
  by (auto simp: has_section_def Document_contains_def Document_has_option_def
      Document_get_def Document_get_section_def Document_options_def
      split: option.splits)


theorem C10_witness:
  "\<not> has_section ex_doc ''missing''
   \<and> Document_has_option ex_doc ''missing'' ''Key'' = Inr False
   \<and> Document_get ex_doc ''missing'' ''Key'' (PyStr ''x'') = Inl (NoSectionError ''missing'')
   \<and> Document_options ex_doc ''missing'' = Inl (NoSectionError ''missing'')"
proof -
  have h1: "\<not> has_section ex_doc ''missing''"
    by (simp add: has_section_def Document_contains_def ex_doc_sections ex_doc_heap ex_names)
  from C10_has_option_missing_section[OF h1] h1 show ?thesis by simp
qed

end
